theory Spec2Isabelle
  imports Complex_Main "HOL-Library.Sublist"
begin

section \<open>Data model of \<open>src/pages/Products.jsx\<close>\<close>

text \<open>
  The component \<open>ProductManagement\<close> keeps a list of products fetched from the product
  store, derives a filtered list and a page of it, and classifies the stock of a product.

  JavaScript values are typed here as the component uses them:
  \<^item> \<open>quantity\<close> is a number holding an integer (\<^typ>\<open>int\<close>);
  \<^item> a field that may be \<open>undefined\<close> or \<open>null\<close> is an \<open>option\<close>;
  \<^item> strings are ASCII text (\<^typ>\<open>string\<close>).
\<close>

subsection \<open>The alert configuration\<close>

text \<open>
  \<open>product.alert_config\<close> is read in two places, both through
  \<^verbatim>\<open>typeof product.alert_config === 'string' ? JSON.parse(product.alert_config) : product.alert_config\<close>
  followed by \<^verbatim>\<open>alertConfig?.min_quantity ?? 5\<close>. Three shapes of value are told apart:
  \<^item> \<open>Nullish\<close>: \<open>undefined\<close> or \<open>null\<close> (the field is absent); \<open>?.\<close> yields \<open>undefined\<close>;
  \<^item> \<open>Mapping m\<close>: an object (or any other non-string value); \<open>m\<close> is its
    \<open>min_quantity\<close>, \<open>None\<close> when that property is \<open>undefined\<close> or \<open>null\<close>, an integer
    otherwise;
  \<^item> \<open>Text s\<close>: a string.
\<close>

datatype alert_config = Nullish | Mapping "int option" | Text string

text \<open>
  \<open>JSON.parse\<close> belongs to the host language, not to the component. The model takes it as
  a parameter \<open>parse\<close>: \<open>parse s = None\<close> when \<open>JSON.parse(s)\<close> throws, and
  \<open>parse s = Some v\<close> when it returns \<open>v\<close> (which may again be \<open>null\<close>, an object or
  a string). Every theorem below holds for each such function.
\<close>

type_synonym json_parse = "string \<Rightarrow> alert_config option"

text \<open>The conditional expression that decodes the field; \<open>None\<close> is the thrown exception.\<close>

fun decode :: "json_parse \<Rightarrow> alert_config \<Rightarrow> alert_config option" where
  "decode parse (Text s) = parse s"
| "decode parse Nullish = Some Nullish"
| "decode parse (Mapping m) = Some (Mapping m)"

text \<open>\<^verbatim>\<open>alertConfig?.min_quantity\<close>: a string has no such property.\<close>

fun min_quantity :: "alert_config \<Rightarrow> int option" where
  "min_quantity Nullish = None"
| "min_quantity (Mapping m) = m"
| "min_quantity (Text s) = None"

text \<open>\<^verbatim>\<open>alertConfig?.min_quantity ?? 5\<close>\<close>

definition lowStockThreshold :: "alert_config \<Rightarrow> int" where
  "lowStockThreshold alertConfig =
     (case min_quantity alertConfig of None \<Rightarrow> 5 | Some m \<Rightarrow> m)"

subsection \<open>Products\<close>

text \<open>
  \<open>product_index\<close> is a string or a number; the search calls \<open>toString()\<close> on it.
  The price fields are read by the markup only and are left out.
\<close>

datatype index_value = IndexText string | IndexNumber int

record product =
  product_id :: nat
  product_index :: "index_value option"
  name :: "string option"
  quantity :: int
  alert_config :: alert_config
  description :: "string option"
  supplier_name :: "string option"
  category :: "string option"

section \<open>Stock classifier\<close>

datatype stock_status = Out | Low | Average | Healthy

text \<open>
  \<^verbatim>\<open>
  const getStockStatus = (product) => {
    if (product.quantity === 0) return 'out';
    try {
      const alertConfig = typeof product.alert_config === 'string'
        ? JSON.parse(product.alert_config) : product.alert_config;
      const lowStockThreshold = alertConfig?.min_quantity ?? 5;
      if (product.quantity <= lowStockThreshold) return 'low';
      if (product.quantity < 50) return 'average';
      return 'healthy';
    } catch (e) { return 'healthy'; }
  };
  \<close>
\<close>

definition getStockStatus :: "json_parse \<Rightarrow> product \<Rightarrow> stock_status" where
  "getStockStatus parse p =
     (if quantity p = 0 then Out
      else case decode parse (alert_config p) of
             None \<Rightarrow> Healthy
           | Some alertConfig \<Rightarrow>
               if quantity p \<le> lowStockThreshold alertConfig then Low
               else if quantity p < 50 then Average
               else Healthy)"

text \<open>
  The predicate of the \<open>stock === 'low'\<close> stage of the filter:
  \<^verbatim>\<open>
  product => {
    try {
      const alertConfig = typeof product.alert_config === 'string'
        ? JSON.parse(product.alert_config) : product.alert_config;
      const lowStockThreshold = alertConfig?.min_quantity ?? 5;
      return product.quantity <= lowStockThreshold && product.quantity > 0;
    } catch (e) { return false; }
  }
  \<close>
\<close>

definition lowStockFilter :: "json_parse \<Rightarrow> product \<Rightarrow> bool" where
  "lowStockFilter parse p =
     (case decode parse (alert_config p) of
        None \<Rightarrow> False
      | Some alertConfig \<Rightarrow> quantity p \<le> lowStockThreshold alertConfig \<and> quantity p > 0)"

section \<open>Strings\<close>

text \<open>\<open>String.prototype.toLowerCase\<close>, on ASCII text.\<close>

definition lower_char :: "char \<Rightarrow> char" where
  "lower_char c =
     (let n = (of_char c :: nat) in if 65 \<le> n \<and> n \<le> 90 then char_of (n + 32) else c)"

definition toLowerCase :: "string \<Rightarrow> string" where
  "toLowerCase s = map lower_char s"

text \<open>\<open>s.includes(t)\<close>: the text \<open>t\<close> occurs in \<open>s\<close> as a contiguous run.\<close>

fun startsWith :: "string \<Rightarrow> string \<Rightarrow> bool" where
  "startsWith s [] = True"
| "startsWith [] (c # t) = False"
| "startsWith (a # s) (c # t) = (a = c \<and> startsWith s t)"

fun includes_str :: "string \<Rightarrow> string \<Rightarrow> bool" where
  "includes_str [] t = (t = [])"
| "includes_str (a # s) t = (startsWith (a # s) t \<or> includes_str s t)"

text \<open>
  \<open>Number.prototype.toString\<close> on an integer, in decimal (integers of so many digits
  that JavaScript switches to exponent notation are not product codes).
\<close>

fun digits :: "nat \<Rightarrow> string" where
  "digits n =
     (if n < 10 then [char_of (48 + n)] else digits (n div 10) @ [char_of (48 + n mod 10)])"

definition number_toString :: "int \<Rightarrow> string" where
  "number_toString i = (if i < 0 then CHR ''-'' # digits (nat (- i)) else digits (nat i))"

text \<open>\<open>product.product_index\<close> as a condition, and \<open>product.product_index.toString()\<close>.\<close>

fun index_truthy :: "index_value \<Rightarrow> bool" where
  "index_truthy (IndexText s) = (s \<noteq> [])"
| "index_truthy (IndexNumber n) = (n \<noteq> 0)"

fun index_toString :: "index_value \<Rightarrow> string" where
  "index_toString (IndexText s) = s"
| "index_toString (IndexNumber n) = number_toString n"

section \<open>Filter and search\<close>

record filters =
  filter_stock :: string
  filter_category :: string
  filter_supplier :: string

text \<open>
  A text field matches when it is truthy (present and not empty) and contains the term:
  \<^verbatim>\<open>product.name && product.name.toLowerCase().includes(lowerTerm)\<close>
\<close>

definition field_matches :: "string option \<Rightarrow> string \<Rightarrow> bool" where
  "field_matches field lowerTerm =
     (case field of None \<Rightarrow> False
      | Some s \<Rightarrow> s \<noteq> [] \<and> includes_str (toLowerCase s) lowerTerm)"

text \<open>
  \<^verbatim>\<open>
  product =>
    (product.name && product.name.toLowerCase().includes(lowerTerm)) ||
    (product.product_index && product.product_index.toString().includes(searchTerm)) ||
    (product.description && product.description.toLowerCase().includes(lowerTerm)) ||
    (product.supplier_name && product.supplier_name.toLowerCase().includes(lowerTerm))
  \<close>
\<close>

definition matchesSearch :: "string \<Rightarrow> product \<Rightarrow> bool" where
  "matchesSearch term p =
     (let lowerTerm = toLowerCase term in
        field_matches (name p) lowerTerm
        \<or> (case product_index p of None \<Rightarrow> False
            | Some i \<Rightarrow> index_truthy i \<and> includes_str (index_toString i) term)
        \<or> field_matches (description p) lowerTerm
        \<or> field_matches (supplier_name p) lowerTerm)"

text \<open>The four stages of the effect, each narrowing \<open>result\<close>.\<close>

definition applySearch :: "string \<Rightarrow> product list \<Rightarrow> product list" where
  "applySearch term result =
     (if term \<noteq> [] then filter (matchesSearch term) result else result)"

definition applyStockFilter :: "json_parse \<Rightarrow> string \<Rightarrow> product list \<Rightarrow> product list" where
  "applyStockFilter parse stock result =
     (if stock = ''low'' then filter (lowStockFilter parse) result
      else if stock = ''out'' then filter (\<lambda>p. quantity p = 0) result
      else if stock = ''average'' then filter (\<lambda>p. quantity p > 0 \<and> quantity p < 50) result
      else result)"

definition applyCategoryFilter :: "string \<Rightarrow> product list \<Rightarrow> product list" where
  "applyCategoryFilter c result =
     (if c \<noteq> [] \<and> c \<noteq> ''all'' then filter (\<lambda>p. category p = Some c) result else result)"

definition applySupplierFilter :: "string \<Rightarrow> product list \<Rightarrow> product list" where
  "applySupplierFilter s result =
     (if s \<noteq> [] \<and> s \<noteq> ''all'' then filter (\<lambda>p. supplier_name p = Some s) result
      else result)"

text \<open>The value the effect hands to \<open>setFilteredProducts\<close>.\<close>

definition applyFilters :: "json_parse \<Rightarrow> string \<Rightarrow> filters \<Rightarrow> product list \<Rightarrow> product list" where
  "applyFilters parse term f ps =
     applySupplierFilter (filter_supplier f)
       (applyCategoryFilter (filter_category f)
         (applyStockFilter parse (filter_stock f)
           (applySearch term ps)))"

section \<open>Pagination\<close>

text \<open>
  \<open>Array.prototype.slice(start, end)\<close> on integer arguments: a negative index counts
  from the end, and both indices are clamped to the array.
\<close>

definition js_slice :: "'a list \<Rightarrow> int \<Rightarrow> int \<Rightarrow> 'a list" where
  "js_slice xs start stop =
     (let len = int (length xs);
          k = (if start < 0 then max (len + start) 0 else min start len);
          final = (if stop < 0 then max (len + stop) 0 else min stop len)
      in take (nat (final - k)) (drop (nat k) xs))"

definition indexOfLastProduct :: "int \<Rightarrow> int \<Rightarrow> int" where
  "indexOfLastProduct page perPage = page * perPage"

definition indexOfFirstProduct :: "int \<Rightarrow> int \<Rightarrow> int" where
  "indexOfFirstProduct page perPage = indexOfLastProduct page perPage - perPage"

definition currentProducts :: "'a list \<Rightarrow> int \<Rightarrow> int \<Rightarrow> 'a list" where
  "currentProducts filtered perPage page =
     js_slice filtered (indexOfFirstProduct page perPage) (indexOfLastProduct page perPage)"

text \<open>
  \<^verbatim>\<open>Math.ceil(filteredProducts.length / productsPerPage)\<close>. With \<open>productsPerPage = 0\<close> the
  quotient is \<open>NaN\<close> or \<open>Infinity\<close>, which is no number of pages: \<open>None\<close>.
\<close>

definition totalPages :: "'a list \<Rightarrow> int \<Rightarrow> int option" where
  "totalPages filtered perPage =
     (if perPage = 0 then None
      else Some \<lceil>real_of_int (int (length filtered)) / real_of_int perPage\<rceil>)"

section \<open>Component state and handlers\<close>

text \<open>The draft of the creation form (\<open>newProduct\<close>): what the form's inputs hold.\<close>

record draft =
  draft_product_index :: string
  draft_name :: string
  draft_buying_price :: string
  draft_selling_price :: string
  draft_quantity :: string
  draft_min_quantity :: int
  draft_description :: string
  draft_supplier_name :: string
  draft_category :: string

definition blank_draft :: draft where
  "blank_draft =
     \<lparr>draft_product_index = [], draft_name = [], draft_buying_price = [],
      draft_selling_price = [], draft_quantity = [], draft_min_quantity = 5,
      draft_description = [], draft_supplier_name = [], draft_category = []\<rparr>"

record state =
  products :: "product list"
  filteredProducts :: "product list"
  loading :: bool
  error :: "string option"
  currentPage :: int
  productsPerPage :: int
  searchTerm :: string
  filters :: filters
  showCreateModal :: bool
  viewingProduct :: "product option"
  editingProduct :: "product option"
  newProduct :: draft

definition initial_state :: state where
  "initial_state =
     \<lparr>products = [], filteredProducts = [], loading = True, error = None, currentPage = 1,
      productsPerPage = 10, searchTerm = [],
      filters = \<lparr>filter_stock = ''all'', filter_category = ''all'', filter_supplier = ''all''\<rparr>,
      showCreateModal = False, viewingProduct = None, editingProduct = None,
      newProduct = blank_draft\<rparr>"

text \<open>
  What a request comes back with. \<open>fetch\<close> either rejects (a network error, with its
  message) or resolves to a response with a status; \<open>response.ok\<close> holds for the statuses
  \<open>200\<close> to \<open>299\<close>. Reading the body either throws (\<open>response.json()\<close> rejects
  a body that is not JSON, with its message; reading \<open>.data\<close> of the JSON value
  \<open>null\<close> throws as well) or yields the \<open>data\<close> field. That field is typed by the
  store's contract: an array of products for the list, a product for create and update.
\<close>

datatype 'a body = BodyRejects string | BodyData 'a

datatype 'a response = Rejects string | Response nat "'a body"

definition ok :: "nat \<Rightarrow> bool" where
  "ok status = (200 \<le> status \<and> status \<le> 299)"

text \<open>
  The effect with dependencies \<open>[products, searchTerm, filters]\<close>: it ends with
  \<open>setFilteredProducts(result); setCurrentPage(1)\<close>.
\<close>

definition filterEffect :: "json_parse \<Rightarrow> state \<Rightarrow> state" where
  "filterEffect parse st =
     st\<lparr>filteredProducts := applyFilters parse (searchTerm st) (filters st) (products st),
        currentPage := 1\<rparr>"

text \<open>
  Each handler below maps the state at the call, and what the request came back with, to
  the state once the handler's updates are rendered and the effect, if one of its
  dependencies was set, has run. \<open>setProducts\<close> and \<open>setFilters\<close> are always given a
  new array or object, so the effect runs after them; \<open>setSearchTerm\<close> with the term
  already held changes nothing.

  \<^verbatim>\<open>
  const fetchProducts = async () => {
    try {
      const response = await fetch(".../api/products/");
      const json = await response.json();
      setProducts(json.data);
      setLoading(false);
    } catch (error) {
      setError("Failed to load products. Please try again later.");
      setLoading(false);
    }
  };
  \<close>
  The status of the response is not read.
\<close>

definition load_failed :: "state \<Rightarrow> state" where
  "load_failed st =
     st\<lparr>error := Some ''Failed to load products. Please try again later.'',
        loading := False\<rparr>"

fun fetchProducts :: "json_parse \<Rightarrow> product list response \<Rightarrow> state \<Rightarrow> state" where
  "fetchProducts parse (Rejects m) st = load_failed st"
| "fetchProducts parse (Response status (BodyRejects m)) st = load_failed st"
| "fetchProducts parse (Response status (BodyData d)) st =
     filterEffect parse (st\<lparr>products := d, loading := False\<rparr>)"

text \<open>
  \<^verbatim>\<open>
  const handleCreateProduct = async () => {
    try {
      const response = await fetch(..., { method: 'POST', ... });
      if (!response.ok) throw new Error('Failed to create product');
      const createdProduct = await response.json();
      setProducts([createdProduct.data, ...products]);
      setShowCreateModal(false);
      setNewProduct({ product_index: '', ..., alert_config: { min_quantity: 5 }, ... });
    } catch (err) { setError(err.message); }
  };
  \<close>
\<close>

fun handleCreateProduct :: "json_parse \<Rightarrow> product response \<Rightarrow> state \<Rightarrow> state" where
  "handleCreateProduct parse (Rejects m) st = st\<lparr>error := Some m\<rparr>"
| "handleCreateProduct parse (Response status b) st =
     (if \<not> ok status then st\<lparr>error := Some ''Failed to create product''\<rparr>
      else case b of
             BodyRejects m \<Rightarrow> st\<lparr>error := Some m\<rparr>
           | BodyData created \<Rightarrow>
               filterEffect parse
                 (st\<lparr>products := created # products st, showCreateModal := False,
                     newProduct := blank_draft\<rparr>))"

text \<open>
  \<^verbatim>\<open>
  const handleUpdateProduct = async (productId, updatedFields) => {
    try {
      const response = await fetch(`.../${productId}`, { method: 'PUT', ... });
      if (!response.ok) throw new Error('Failed to update product');
      const updatedProduct = await response.json();
      setProducts(products.map(p => p.id === productId ? updatedProduct.data : p));
      setEditingProduct(null);
    } catch (err) { setError(err.message); }
  };
  \<close>
  \<open>updatedFields\<close> only goes into the request.
\<close>

fun handleUpdateProduct :: "json_parse \<Rightarrow> nat \<Rightarrow> product response \<Rightarrow> state \<Rightarrow> state" where
  "handleUpdateProduct parse productId (Rejects m) st = st\<lparr>error := Some m\<rparr>"
| "handleUpdateProduct parse productId (Response status b) st =
     (if \<not> ok status then st\<lparr>error := Some ''Failed to update product''\<rparr>
      else case b of
             BodyRejects m \<Rightarrow> st\<lparr>error := Some m\<rparr>
           | BodyData updated \<Rightarrow>
               filterEffect parse
                 (st\<lparr>products := map (\<lambda>p. if product_id p = productId then updated else p)
                                   (products st),
                     editingProduct := None\<rparr>))"

text \<open>
  \<^verbatim>\<open>
  const handleDeleteProduct = async (productId) => {
    if (!window.confirm('Are you sure you want to delete this product?')) return;
    try {
      const response = await fetch(`.../${productId}`, { method: 'DELETE' });
      if (!response.ok) throw new Error('Failed to delete product');
      setProducts(products.filter(p => p.id !== productId));
    } catch (err) { setError(err.message); }
  };
  \<close>
  \<open>confirmed\<close> is the answer of \<open>window.confirm\<close>; the body of the response is not read.
\<close>

fun handleDeleteProduct ::
  "json_parse \<Rightarrow> nat \<Rightarrow> bool \<Rightarrow> 'a response \<Rightarrow> state \<Rightarrow> state" where
  "handleDeleteProduct parse productId False r st = st"
| "handleDeleteProduct parse productId True (Rejects m) st = st\<lparr>error := Some m\<rparr>"
| "handleDeleteProduct parse productId True (Response status b) st =
     (if \<not> ok status then st\<lparr>error := Some ''Failed to delete product''\<rparr>
      else filterEffect parse
             (st\<lparr>products := filter (\<lambda>p. product_id p \<noteq> productId) (products st)\<rparr>))"

text \<open>The setters the markup calls: the search box, the filter selects, the page buttons.\<close>

definition setSearchTerm :: "json_parse \<Rightarrow> string \<Rightarrow> state \<Rightarrow> state" where
  "setSearchTerm parse s st =
     (if s = searchTerm st then st else filterEffect parse (st\<lparr>searchTerm := s\<rparr>))"

definition setFilters :: "json_parse \<Rightarrow> filters \<Rightarrow> state \<Rightarrow> state" where
  "setFilters parse f st = filterEffect parse (st\<lparr>filters := f\<rparr>)"

text \<open>\<^verbatim>\<open>const paginate = (pageNumber) => setCurrentPage(pageNumber);\<close>\<close>

definition paginate :: "int \<Rightarrow> state \<Rightarrow> state" where
  "paginate pageNumber st = st\<lparr>currentPage := pageNumber\<rparr>"

text \<open>
  Everything that can happen to the mounted component, one event at a time: the
  component is single-threaded, and each event is taken to its settled state.
\<close>

datatype event =
    FetchProducts "product list response"
  | SetSearchTerm string
  | SetFilters filters
  | Paginate int
  | SetShowCreateModal bool
  | SetNewProduct draft
  | SetViewingProduct "product option"
  | SetEditingProduct "product option"
  | HandleCreateProduct "product response"
  | HandleUpdateProduct nat "product response"
  | HandleDeleteProduct nat bool "unit response"

fun step :: "json_parse \<Rightarrow> state \<Rightarrow> event \<Rightarrow> state" where
  "step parse st (FetchProducts r) = fetchProducts parse r st"
| "step parse st (SetSearchTerm s) = setSearchTerm parse s st"
| "step parse st (SetFilters f) = setFilters parse f st"
| "step parse st (Paginate n) = paginate n st"
| "step parse st (SetShowCreateModal b) = st\<lparr>showCreateModal := b\<rparr>"
| "step parse st (SetNewProduct d) = st\<lparr>newProduct := d\<rparr>"
| "step parse st (SetViewingProduct v) = st\<lparr>viewingProduct := v\<rparr>"
| "step parse st (SetEditingProduct e) = st\<lparr>editingProduct := e\<rparr>"
| "step parse st (HandleCreateProduct r) = handleCreateProduct parse r st"
| "step parse st (HandleUpdateProduct i r) = handleUpdateProduct parse i r st"
| "step parse st (HandleDeleteProduct i c r) = handleDeleteProduct parse i c r st"

text \<open>A session: the events in order, from the state the component mounts with.\<close>

definition run :: "json_parse \<Rightarrow> event list \<Rightarrow> state" where
  "run parse es = foldl (step parse) (filterEffect parse initial_state) es"

section \<open>Examples\<close>

text \<open>
  For concrete examples the decoder is a finite table: the texts of the example that
  \<open>JSON.parse\<close> accepts, each with its value. Every other text of the example is
  malformed JSON, on which \<open>JSON.parse\<close> throws.
\<close>

definition parse_table :: "(string \<times> alert_config) list \<Rightarrow> json_parse" where
  "parse_table table s = map_of table s"

definition example_table :: "(string \<times> alert_config) list" where
  \<open>example_table =
     [(''{"min_quantity": 3}'', Mapping (Some 3)),
      (''{}'', Mapping None),
      (''null'', Nullish)]\<close>

definition example_product :: "nat \<Rightarrow> int \<Rightarrow> alert_config \<Rightarrow> product" where
  "example_product i q c =
     \<lparr>product_id = i, product_index = Some (IndexNumber (int i)), name = Some ''Item'',
      quantity = q, alert_config = c, description = None, supplier_name = None,
      category = None\<rparr>"

text \<open>
  The bands the specification gives for the default threshold \<open>5\<close>: \<open>low\<close> up to \<open>5\<close>,
  \<open>average\<close> below \<open>50\<close>, \<open>healthy\<close> from \<open>50\<close> on.
\<close>

definition spec_default_band :: "int \<Rightarrow> stock_status" where
  "spec_default_band q = (if q \<le> 5 then Low else if q < 50 then Average else Healthy)"

definition example_parse :: json_parse where
  "example_parse = parse_table example_table"

text \<open>Catalogs of \<open>21\<close> and of \<open>23\<close> products, with the identifiers \<open>1, 2, \<dots>\<close>.\<close>

definition catalog21 :: "product list" where
  "catalog21 = map (\<lambda>i. example_product i 7 Nullish) [1..<22]"

definition catalog23 :: "product list" where
  "catalog23 = map (\<lambda>i. example_product i 7 Nullish) [1..<24]"

text \<open>
  A session: the list is loaded with \<open>21\<close> products and the third page is opened; then
  the product shown there, number \<open>21\<close>, is deleted and the store confirms.
\<close>

definition session_before :: state where
  "session_before =
     run example_parse [FetchProducts (Response 200 (BodyData catalog21)), Paginate 3]"

definition session_after :: state where
  "session_after =
     step example_parse session_before
       (HandleDeleteProduct 21 True (Response 200 (BodyData ())))"

text \<open>A session in which the creation form is open and a name has been typed.\<close>

definition session_form :: state where
  "session_form =
     run example_parse
       [FetchProducts (Response 200 (BodyData catalog21)),
        SetShowCreateModal True,
        SetNewProduct (blank_draft\<lparr>draft_name := ''Bolt''\<rparr>)]"

section \<open>Outcomes of a request, in the specification's words\<close>

text \<open>A request fails by a network error or by a response outside \<open>200\<close> to \<open>299\<close>.\<close>

definition network_or_status_failure :: "'a response \<Rightarrow> bool" where
  "network_or_status_failure r =
     (case r of Rejects m \<Rightarrow> True | Response status b \<Rightarrow> \<not> ok status)"

text \<open>A creation succeeds when the response is in that range and its body is readable.\<close>

definition created_successfully :: "product response \<Rightarrow> bool" where
  "created_successfully r =
     (case r of
        Rejects m \<Rightarrow> False
      | Response status b \<Rightarrow>
          ok status \<and> (case b of BodyRejects m \<Rightarrow> False | BodyData d \<Rightarrow> True))"

section \<open>Properties of the stock classifier\<close>

text \<open>
  C1. For every product and every content of \<open>alert_config\<close> (a mapping, a text that
  decodes, a text on which \<open>JSON.parse\<close> throws, or nothing), \<open>getStockStatus\<close> returns
  \<open>out\<close> exactly when the quantity is \<open>0\<close>.
\<close>

theorem getStockStatus_out_iff:
  "getStockStatus parse p = Out \<longleftrightarrow> quantity p = 0"
  by (simp add: getStockStatus_def split: option.split)

lemma example_decode:
  "example_parse ''{bad'' = None"
  "example_parse ''not json'' = None"
  "example_parse ''{}'' = Some (Mapping None)"
  "example_parse ''null'' = Some Nullish"
  by (simp_all add: example_parse_def parse_table_def example_table_def)

text \<open>
  C4, as stated, fails where the text does not decode: the \<open>catch\<close> branch of
  \<open>getStockStatus\<close> returns \<open>healthy\<close> without comparing to any threshold. A product with
  quantity \<open>3\<close> and the text \<open>not json\<close> is \<open>healthy\<close>, where the default threshold
  would make it \<open>low\<close>.
\<close>

theorem getStockStatus_malformed_counterexample:
  "getStockStatus example_parse (example_product 1 3 (Text ''not json'')) = Healthy
   \<and> decode example_parse (Text ''not json'') = None
   \<and> 0 < quantity (example_product 1 3 (Text ''not json''))
   \<and> spec_default_band (quantity (example_product 1 3 (Text ''not json''))) = Low"
  by (simp add: getStockStatus_def example_decode example_product_def spec_default_band_def)

text \<open>
  C4, amended. For a product with positive quantity: when \<open>alert_config\<close> is a text that
  fails to decode, the classifier returns \<open>healthy\<close> whatever the quantity; when the
  configuration (given directly or decoded) has no \<open>min_quantity\<close>, or is absent, the
  classifier uses the threshold \<open>5\<close> and returns \<open>low\<close> up to \<open>5\<close>, \<open>average\<close> below
  \<open>50\<close> and \<open>healthy\<close> from \<open>50\<close> on.
\<close>

theorem getStockStatus_default_threshold:
  assumes "0 < quantity p"
  shows "(decode parse (alert_config p) = None \<longrightarrow> getStockStatus parse p = Healthy)
       \<and> (\<forall>alertConfig. decode parse (alert_config p) = Some alertConfig
              \<and> min_quantity alertConfig = None
            \<longrightarrow> getStockStatus parse p = spec_default_band (quantity p))"
  using assms
  by (auto simp: getStockStatus_def lowStockThreshold_def spec_default_band_def)

theorem getStockStatus_default_threshold_witness:
  "getStockStatus example_parse (example_product 1 3 (Text ''{bad'')) = Healthy
   \<and> getStockStatus example_parse (example_product 2 3 (Text ''{}'')) = Low
   \<and> getStockStatus example_parse (example_product 3 5 Nullish) = Low
   \<and> getStockStatus example_parse (example_product 4 6 (Mapping None)) = Average
   \<and> getStockStatus example_parse (example_product 5 50 (Text ''null'')) = Healthy"
proof -
  have "getStockStatus example_parse (example_product 1 3 (Text ''{bad'')) = Healthy"
    using getStockStatus_default_threshold
            [of "example_product 1 3 (Text ''{bad'')" example_parse]
    by (simp add: example_product_def example_decode)
  moreover have "getStockStatus example_parse (example_product 2 3 (Text ''{}'')) = Low"
    using getStockStatus_default_threshold
            [of "example_product 2 3 (Text ''{}'')" example_parse]
    by (simp add: example_product_def example_decode spec_default_band_def)
  moreover have "getStockStatus example_parse (example_product 3 5 Nullish) = Low"
    using getStockStatus_default_threshold [of "example_product 3 5 Nullish" example_parse]
    by (simp add: example_product_def spec_default_band_def)
  moreover have "getStockStatus example_parse (example_product 4 6 (Mapping None)) = Average"
    using getStockStatus_default_threshold
            [of "example_product 4 6 (Mapping None)" example_parse]
    by (simp add: example_product_def spec_default_band_def)
  moreover have "getStockStatus example_parse (example_product 5 50 (Text ''null'')) = Healthy"
    using getStockStatus_default_threshold
            [of "example_product 5 50 (Text ''null'')" example_parse]
    by (simp add: example_product_def example_decode spec_default_band_def)
  ultimately show ?thesis by simp
qed

text \<open>
  C5, as stated, fails at a negative quantity, which nothing in the component rules
  out: \<open>getStockStatus\<close> tests \<open>quantity === 0\<close> only, so quantity \<open>-1\<close> is at or
  under the threshold and \<open>low\<close>, while the predicate of the \<open>stock = low\<close> stage
  asks for \<open>quantity > 0\<close> and drops the product.
\<close>

theorem lowStockFilter_negative_counterexample:
  "getStockStatus example_parse (example_product 1 (- 1) Nullish) = Low
   \<and> \<not> lowStockFilter example_parse (example_product 1 (- 1) Nullish)
   \<and> applyStockFilter example_parse ''low'' [example_product 1 (- 1) Nullish] = []"
  by (simp add: getStockStatus_def lowStockFilter_def applyStockFilter_def
      example_product_def lowStockThreshold_def)

text \<open>
  C5, amended. For every product whose quantity is not negative, the predicate of the
  \<open>stock = low\<close> stage holds exactly when \<open>getStockStatus\<close> returns \<open>low\<close>, and the
  stage keeps exactly the products classified \<open>low\<close>. Both compare with \<open>\<le>\<close>
  against the same threshold, both leave out quantity \<open>0\<close>, and a text that does not
  decode is not \<open>low\<close> for either.
\<close>

theorem lowStockFilter_iff_low:
  assumes "0 \<le> quantity p"
  shows "(lowStockFilter parse p \<longleftrightarrow> getStockStatus parse p = Low)
       \<and> (p \<in> set (applyStockFilter parse ''low'' ps)
            \<longleftrightarrow> p \<in> set ps \<and> getStockStatus parse p = Low)"
proof -
  have "lowStockFilter parse p \<longleftrightarrow> getStockStatus parse p = Low"
    using assms by (auto simp: lowStockFilter_def getStockStatus_def split: option.splits)
  then show ?thesis by (auto simp: applyStockFilter_def)
qed

text \<open>
  The scenario of the specification: of the products with quantities \<open>0\<close>, \<open>3\<close>
  (threshold \<open>5\<close>) and \<open>80\<close>, the \<open>low\<close> stage keeps the second only.
\<close>

theorem lowStockFilter_iff_low_witness:
  \<open>0 \<le> quantity (example_product 2 3 (Mapping (Some 5)))
   \<and> getStockStatus example_parse (example_product 2 3 (Mapping (Some 5))) = Low
   \<and> lowStockFilter example_parse (example_product 2 3 (Mapping (Some 5)))
   \<and> getStockStatus example_parse (example_product 1 0 Nullish) = Out
   \<and> lowStockFilter example_parse (example_product 4 3 (Text ''{"min_quantity": 3}''))
   \<and> \<not> lowStockFilter example_parse (example_product 5 3 (Text ''{bad''))
   \<and> applyStockFilter example_parse ''low''
        [example_product 1 0 Nullish, example_product 2 3 (Mapping (Some 5)),
         example_product 3 80 Nullish]
      = [example_product 2 3 (Mapping (Some 5))]\<close>
proof -
  have low: "getStockStatus example_parse (example_product 2 3 (Mapping (Some 5))) = Low"
    by (simp add: getStockStatus_def example_product_def lowStockThreshold_def)
  have "lowStockFilter example_parse (example_product 2 3 (Mapping (Some 5)))"
    using lowStockFilter_iff_low [of "example_product 2 3 (Mapping (Some 5))" example_parse] low
    by (simp add: example_product_def)
  moreover have "getStockStatus example_parse (example_product 1 0 Nullish) = Out"
    by (simp add: getStockStatus_def example_product_def)
  moreover have
    \<open>lowStockFilter example_parse (example_product 4 3 (Text ''{"min_quantity": 3}''))\<close>
  proof -
    have \<open>getStockStatus example_parse (example_product 4 3 (Text ''{"min_quantity": 3}''))
          = Low\<close>
      by (simp add: getStockStatus_def example_product_def lowStockThreshold_def
          example_parse_def parse_table_def example_table_def)
    then show ?thesis
      using lowStockFilter_iff_low
              [of \<open>example_product 4 3 (Text ''{"min_quantity": 3}'')\<close> example_parse]
      by (simp add: example_product_def)
  qed
  moreover have "\<not> lowStockFilter example_parse (example_product 5 3 (Text ''{bad''))"
  proof -
    have "getStockStatus example_parse (example_product 5 3 (Text ''{bad'')) = Healthy"
      by (simp add: getStockStatus_def example_product_def example_decode)
    then show ?thesis
      using lowStockFilter_iff_low [of "example_product 5 3 (Text ''{bad'')" example_parse]
      by (simp add: example_product_def)
  qed
  moreover have "applyStockFilter example_parse ''low''
        [example_product 1 0 Nullish, example_product 2 3 (Mapping (Some 5)),
         example_product 3 80 Nullish]
      = [example_product 2 3 (Mapping (Some 5))]"
    by (simp add: applyStockFilter_def lowStockFilter_def example_product_def
        lowStockThreshold_def)
  ultimately show ?thesis using low by (simp add: example_product_def)
qed

section \<open>Properties of the filter\<close>

text \<open>\<open>includes_str\<close> is the substring test, and the search is case-insensitive.\<close>

lemma startsWith_iff: "startsWith s t \<longleftrightarrow> (\<exists>v. s = t @ v)"
  by (induction s t rule: startsWith.induct) auto

lemma includes_str_iff: "includes_str s t \<longleftrightarrow> (\<exists>u v. s = u @ t @ v)"
proof (induction s)
  case Nil
  show ?case by auto
next
  case (Cons a s)
  show ?case
  proof
    assume "includes_str (a # s) t"
    then consider "startsWith (a # s) t" | "includes_str s t" by auto
    then show "\<exists>u v. a # s = u @ t @ v"
    proof cases
      case 1
      then obtain v where "a # s = [] @ t @ v" by (auto simp: startsWith_iff)
      then show ?thesis by blast
    next
      case 2
      then obtain u v where "s = u @ t @ v" using Cons.IH by blast
      then have "a # s = (a # u) @ t @ v" by simp
      then show ?thesis by blast
    qed
  next
    assume "\<exists>u v. a # s = u @ t @ v"
    then obtain u v where uv: "a # s = u @ t @ v" by blast
    show "includes_str (a # s) t"
    proof (cases u)
      case Nil
      with uv have "startsWith (a # s) t" by (auto simp: startsWith_iff)
      then show ?thesis by simp
    next
      case (Cons b u')
      with uv have "s = u' @ t @ v" by simp
      then have "includes_str s t" using Cons.IH by blast
      then show ?thesis by simp
    qed
  qed
qed

lemma matchesSearch_example:
  "matchesSearch ''bolt'' ((example_product 7 3 Nullish)\<lparr>name := Some ''Steel BOLT M8''\<rparr>)"
  "matchesSearch ''12'' (example_product 3125 3 Nullish)"
  "\<not> matchesSearch ''nut'' ((example_product 7 3 Nullish)\<lparr>name := Some ''Steel BOLT M8''\<rparr>)"
  by code_simp+

text \<open>Each stage is one \<open>filter\<close>, with a predicate that the criteria fix.\<close>

lemma applySearch_filter: "\<exists>P. \<forall>xs. applySearch term xs = filter P xs"
proof (cases "term = []")
  case True
  then have "\<forall>xs. applySearch term xs = filter (\<lambda>_. True) xs" by (simp add: applySearch_def)
  then show ?thesis by blast
next
  case False
  then have "\<forall>xs. applySearch term xs = filter (matchesSearch term) xs" by (simp add: applySearch_def)
  then show ?thesis by blast
qed

lemma applyStockFilter_filter: "\<exists>P. \<forall>xs. applyStockFilter parse stock xs = filter P xs"
proof -
  consider "stock = ''low''" | "stock \<noteq> ''low''" "stock = ''out''"
    | "stock \<noteq> ''low''" "stock \<noteq> ''out''" "stock = ''average''"
    | "stock \<noteq> ''low''" "stock \<noteq> ''out''" "stock \<noteq> ''average''" by blast
  then show ?thesis
  proof cases
    case 1
    then have "\<forall>xs. applyStockFilter parse stock xs = filter (lowStockFilter parse) xs"
      by (simp add: applyStockFilter_def)
    then show ?thesis by blast
  next
    case 2
    then have "\<forall>xs. applyStockFilter parse stock xs = filter (\<lambda>p. quantity p = 0) xs"
      by (simp add: applyStockFilter_def)
    then show ?thesis by blast
  next
    case 3
    then have "\<forall>xs. applyStockFilter parse stock xs
        = filter (\<lambda>p. quantity p > 0 \<and> quantity p < 50) xs"
      by (simp add: applyStockFilter_def)
    then show ?thesis by blast
  next
    case 4
    then have "\<forall>xs. applyStockFilter parse stock xs = filter (\<lambda>_. True) xs"
      by (simp add: applyStockFilter_def)
    then show ?thesis by blast
  qed
qed

lemma applyCategoryFilter_filter: "\<exists>P. \<forall>xs. applyCategoryFilter c xs = filter P xs"
proof (cases "c \<noteq> [] \<and> c \<noteq> ''all''")
  case True
  then have "\<forall>xs. applyCategoryFilter c xs = filter (\<lambda>p. category p = Some c) xs"
    by (simp add: applyCategoryFilter_def)
  then show ?thesis by blast
next
  case False
  then have "\<forall>xs. applyCategoryFilter c xs = filter (\<lambda>_. True) xs"
    by (auto simp add: applyCategoryFilter_def)
  then show ?thesis by blast
qed

lemma applySupplierFilter_filter: "\<exists>P. \<forall>xs. applySupplierFilter s xs = filter P xs"
proof (cases "s \<noteq> [] \<and> s \<noteq> ''all''")
  case True
  then have "\<forall>xs. applySupplierFilter s xs = filter (\<lambda>p. supplier_name p = Some s) xs"
    by (simp add: applySupplierFilter_def)
  then show ?thesis by blast
next
  case False
  then have "\<forall>xs. applySupplierFilter s xs = filter (\<lambda>_. True) xs"
    by (auto simp add: applySupplierFilter_def)
  then show ?thesis by blast
qed

lemma applyFilters_filter: "\<exists>P. \<forall>ps. applyFilters parse term f ps = filter P ps"
proof -
  obtain A where A: "\<And>xs. applySearch term xs = filter A xs"
    using applySearch_filter by blast
  obtain B where B: "\<And>xs. applyStockFilter parse (filter_stock f) xs = filter B xs"
    using applyStockFilter_filter by blast
  obtain C where C: "\<And>xs. applyCategoryFilter (filter_category f) xs = filter C xs"
    using applyCategoryFilter_filter by blast
  obtain D where D: "\<And>xs. applySupplierFilter (filter_supplier f) xs = filter D xs"
    using applySupplierFilter_filter by blast
  have "\<forall>ps. applyFilters parse term f ps = filter (\<lambda>p. ((A p \<and> B p) \<and> C p) \<and> D p) ps"
    by (simp add: applyFilters_def A B C D)
  then show ?thesis by blast
qed

text \<open>
  C7. For every catalog and all criteria (search term, stock, category and supplier
  filters), the filtered list is a subsequence of the catalog, in the catalog's order,
  and filtering it again with the same criteria returns it unchanged.
\<close>

theorem applyFilters_subseq_idempotent:
  "subseq (applyFilters parse term f ps) ps
   \<and> applyFilters parse term f (applyFilters parse term f ps) = applyFilters parse term f ps"
proof -
  obtain P where P: "\<And>xs. applyFilters parse term f xs = filter P xs"
    using applyFilters_filter by blast
  have "subseq (filter P ps) ps" by simp
  moreover have "filter P (filter P ps) = filter P ps" by simp
  ultimately show ?thesis by (simp only: P)
qed

section \<open>Properties of the pagination\<close>

lemma totalPages_bounds:
  assumes "0 < perPage"
  shows "\<exists>n. totalPages xs perPage = Some n
             \<and> int (length xs) \<le> n * perPage \<and> (n - 1) * perPage < int (length xs)"
proof -
  define x where "x = real_of_int (int (length xs)) / real_of_int perPage"
  define n where "n = \<lceil>x\<rceil>"
  have pos: "0 < real_of_int perPage" using assms by simp
  have "x \<le> of_int n" by (simp add: n_def)
  then have "real_of_int (int (length xs)) \<le> of_int n * real_of_int perPage"
    using pos by (simp add: x_def pos_divide_le_eq)
  then have "real_of_int (int (length xs)) \<le> real_of_int (n * perPage)" by simp
  then have upper: "int (length xs) \<le> n * perPage" by (simp only: of_int_le_iff)
  have "of_int n - 1 < x" unfolding n_def by linarith
  then have "(of_int n - 1) * real_of_int perPage < real_of_int (int (length xs))"
    using pos by (simp add: x_def pos_less_divide_eq)
  then have "real_of_int ((n - 1) * perPage) < real_of_int (int (length xs))" by simp
  then have lower: "(n - 1) * perPage < int (length xs)" by (simp only: of_int_less_iff)
  have "totalPages xs perPage = Some n"
    using assms by (simp add: totalPages_def n_def x_def)
  with upper lower show ?thesis by blast
qed

lemma js_slice_nonneg:
  assumes "0 \<le> s" "0 \<le> c"
  shows "js_slice xs s (s + c) = take (nat c) (drop (nat s) xs)"
proof (cases "int (length xs) \<le> s")
  case True
  then have "drop (nat s) xs = []" by simp
  then show ?thesis using True assms by (simp add: js_slice_def)
next
  case False
  then have k: "min s (int (length xs)) = s" by simp
  have "take (nat (min (s + c) (int (length xs)) - s)) (drop (nat s) xs)
        = take (nat c) (drop (nat s) xs)"
  proof (cases "s + c \<le> int (length xs)")
    case True
    then show ?thesis by simp
  next
    case False
    then have "min (s + c) (int (length xs)) = int (length xs)" by simp
    moreover have "length (drop (nat s) xs) \<le> nat c" using False assms by simp
    moreover have "length (drop (nat s) xs) \<le> nat (int (length xs) - s)" using assms by simp
    ultimately show ?thesis by simp
  qed
  then show ?thesis using assms False by (simp add: js_slice_def Let_def)
qed

lemma currentProducts_take_drop:
  assumes "0 < perPage" "1 \<le> page"
  shows "currentProducts xs perPage page
         = take (nat perPage) (drop (nat ((page - 1) * perPage)) xs)"
proof -
  have "0 \<le> (page - 1) * perPage" using assms by simp
  moreover have "page * perPage = (page - 1) * perPage + perPage" by (simp add: algebra_simps)
  ultimately show ?thesis
    using assms js_slice_nonneg [of "(page - 1) * perPage" perPage xs]
    by (simp add: currentProducts_def indexOfFirstProduct_def indexOfLastProduct_def)
qed

lemma concat_currentProducts:
  assumes "0 < perPage"
  shows "concat (map (currentProducts xs perPage) [1..int N]) = take (N * nat perPage) xs"
proof (induction N)
  case 0
  show ?case by simp
next
  case (Suc N)
  have "[1..int (Suc N)] = [1..int N] @ [int N + 1]"
    using upto_rec2 [of 1 "int (Suc N)"] by (simp add: add.commute)
  moreover have "currentProducts xs perPage (int N + 1)
      = take (nat perPage) (drop (N * nat perPage) xs)"
    using currentProducts_take_drop [OF assms, of "int N + 1" xs] assms
    by (simp add: nat_mult_distrib)
  moreover have "take (Suc N * nat perPage) xs
      = take (N * nat perPage) xs @ take (nat perPage) (drop (N * nat perPage) xs)"
    using take_add [of "N * nat perPage" "nat perPage" xs] by (simp add: add.commute)
  ultimately show ?case using Suc by simp
qed


lemma totalPages_ceiling_eq:
  assumes "perPage \<noteq> 0"
  shows "totalPages xs perPage = Some \<lceil>real (length xs) / real_of_int perPage\<rceil>"
  using assms by (simp add: totalPages_def)

text \<open>
  C3, as stated, fails on the empty list: \<open>Math.ceil(0 / 10)\<close> is \<open>0\<close>, and nothing
  raises it to \<open>1\<close>.
\<close>

theorem totalPages_empty_counterexample:
  "totalPages ([] :: product list) (productsPerPage initial_state) = Some 0
   \<and> totalPages ([] :: product list) (productsPerPage initial_state) \<noteq> Some 1"
  by (simp add: totalPages_def initial_state_def)

text \<open>
  C3, amended. For every filtered list and every positive page size, \<open>totalPages\<close> is
  the ceiling of length by page size: the least number of pages that hold the list. It
  is \<open>0\<close> exactly for the empty list (there is no minimum of \<open>1\<close>) and at least \<open>1\<close>
  otherwise; the slice for page \<open>1\<close> of the empty list is the empty list.
\<close>

theorem totalPages_ceiling:
  fixes filtered :: "'a list"
  assumes "0 < perPage"
  shows "\<exists>n. totalPages filtered perPage = Some n
           \<and> n = \<lceil>real (length filtered) / real_of_int perPage\<rceil>
           \<and> (n - 1) * perPage < int (length filtered)
           \<and> int (length filtered) \<le> n * perPage
           \<and> (n = 0 \<longleftrightarrow> filtered = [])
           \<and> (filtered \<noteq> [] \<longrightarrow> 1 \<le> n)
           \<and> currentProducts ([] :: 'a list) perPage 1 = []"
proof -
  obtain n where n: "totalPages filtered perPage = Some n"
    and upper: "int (length filtered) \<le> n * perPage"
    and lower: "(n - 1) * perPage < int (length filtered)"
    using totalPages_bounds [OF assms] by blast
  have ceil: "n = \<lceil>real (length filtered) / real_of_int perPage\<rceil>"
    using n assms totalPages_ceiling_eq [of perPage filtered] by simp
  have nonneg: "0 \<le> n"
  proof (rule ccontr)
    assume "\<not> 0 \<le> n"
    then have "n * perPage < 0" using assms by (simp add: mult_less_0_iff)
    with upper show False by simp
  qed
  have zero: "n = 0 \<longleftrightarrow> filtered = []"
  proof
    assume "n = 0"
    with upper show "filtered = []" by simp
  next
    assume "filtered = []"
    with lower have "(n - 1) * perPage < 0" by simp
    then have "n - 1 < 0" using assms by (simp add: mult_less_0_iff)
    with nonneg show "n = 0" by simp
  qed
  have "filtered \<noteq> [] \<longrightarrow> 1 \<le> n" using zero nonneg by auto
  moreover have "currentProducts ([] :: 'a list) perPage 1 = []"
    by (simp add: currentProducts_def js_slice_def)
  ultimately show ?thesis using n ceil lower upper zero by blast
qed

lemma length_catalog23: "length catalog23 = 23"
  by (simp add: catalog23_def)

text \<open>
  The scenario of the specification: \<open>23\<close> items in pages of \<open>10\<close> make \<open>3\<close> pages, and
  page \<open>3\<close> holds \<open>3\<close> items.
\<close>

theorem totalPages_ceiling_witness:
  "(0 :: int) < 10
   \<and> totalPages catalog23 10 = Some 3
   \<and> length (currentProducts catalog23 10 3) = 3"
proof -
  have "totalPages catalog23 10 = Some 3"
    using totalPages_ceiling [of 10 catalog23] by (simp add: length_catalog23)
  moreover have "length (currentProducts catalog23 10 3) = 3"
    using currentProducts_take_drop [of 10 3 catalog23] by (simp add: length_catalog23)
  ultimately show ?thesis by simp
qed

text \<open>
  C6. For every filtered list and every positive page size, the slices for the pages
  \<open>1\<close> to \<open>totalPages\<close>, one after the other, are the filtered list itself, so each
  element appears exactly once; the slice for page \<open>p\<close> is the range from
  \<open>(p - 1) * pageSize\<close> up to, not including, \<open>p * pageSize\<close>.
\<close>

theorem pages_reconstruct:
  assumes "0 < perPage"
  shows "\<exists>n. totalPages filtered perPage = Some n
          \<and> concat (map (currentProducts filtered perPage) [1..n]) = filtered
          \<and> (\<forall>p \<in> set [1..n]. currentProducts filtered perPage p
                = take (nat perPage) (drop (nat ((p - 1) * perPage)) filtered))"
proof -
  obtain n where n: "totalPages filtered perPage = Some n"
    and upper: "int (length filtered) \<le> n * perPage"
    using totalPages_bounds [OF assms] by blast
  have "0 \<le> n"
  proof (rule ccontr)
    assume "\<not> 0 \<le> n"
    then have "n * perPage < 0" using assms by (simp add: mult_less_0_iff)
    with upper show False by simp
  qed
  have "int (length filtered) \<le> int (nat n * nat perPage)"
    using upper \<open>0 \<le> n\<close> assms by (simp add: nat_mult_distrib)
  then have "length filtered \<le> nat n * nat perPage" by (simp only: of_nat_le_iff)
  then have "take (nat n * nat perPage) filtered = filtered" by simp
  then have "concat (map (currentProducts filtered perPage) [1..int (nat n)]) = filtered"
    using concat_currentProducts [OF assms, of filtered "nat n"] by (simp only:)
  then have "concat (map (currentProducts filtered perPage) [1..n]) = filtered"
    using \<open>0 \<le> n\<close> by simp
  moreover have "\<forall>p \<in> set [1..n]. currentProducts filtered perPage p
      = take (nat perPage) (drop (nat ((p - 1) * perPage)) filtered)"
    using currentProducts_take_drop [OF assms] by auto
  ultimately show ?thesis using n by simp
qed

theorem pages_reconstruct_witness:
  "(0 :: int) < 10
   \<and> totalPages catalog23 10 = Some 3
   \<and> concat (map (currentProducts catalog23 10) [1..3]) = catalog23"
  using pages_reconstruct [of 10 catalog23]
  by (simp add: totalPages_def length_catalog23)


section \<open>Properties of the component state\<close>

lemma filterEffect_fields:
  "products (filterEffect parse st) = products st"
  "searchTerm (filterEffect parse st) = searchTerm st"
  "filters (filterEffect parse st) = filters st"
  "currentPage (filterEffect parse st) = 1"
  "filteredProducts (filterEffect parse st)
     = applyFilters parse (searchTerm st) (filters st) (products st)"
  "error (filterEffect parse st) = error st"
  "newProduct (filterEffect parse st) = newProduct st"
  "showCreateModal (filterEffect parse st) = showCreateModal st"
  "productsPerPage (filterEffect parse st) = productsPerPage st"
  by (simp_all add: filterEffect_def)

lemma session_before_fields:
  "products session_before = catalog21"
  "filteredProducts session_before = catalog21"
  "currentPage session_before = 3"
  "productsPerPage session_before = 10"
  "searchTerm session_before = []"
  "error session_before = None"
  by (simp_all add: session_before_def run_def paginate_def filterEffect_def
      initial_state_def applyFilters_def applySearch_def applyStockFilter_def
      applyCategoryFilter_def applySupplierFilter_def)

lemma session_form_fields:
  "products session_form = catalog21"
  "showCreateModal session_form = True"
  "newProduct session_form = blank_draft\<lparr>draft_name := ''Bolt''\<rparr>"
  "error session_form = None"
  by (simp_all add: session_form_def run_def filterEffect_def initial_state_def)

text \<open>
  C2, at a failing input. The list request is answered with status \<open>500\<close> and a JSON
  body that carries one product under \<open>data\<close>. \<open>fetchProducts\<close> does not read the
  status: the product becomes the catalog and no error is set.
\<close>

theorem fetchProducts_ignores_status:
  "\<not> ok 500
   \<and> products (run example_parse
        [FetchProducts (Response 500 (BodyData [example_product 1 3 Nullish]))])
      = [example_product 1 3 Nullish]
   \<and> error (run example_parse
        [FetchProducts (Response 500 (BodyData [example_product 1 3 Nullish]))])
      = None
   \<and> loading (run example_parse
        [FetchProducts (Response 500 (BodyData [example_product 1 3 Nullish]))])
      = False"
  by (simp add: ok_def run_def filterEffect_def initial_state_def)

text \<open>
  C8. Every event that changes the catalog, the search term or the filter set leaves
  \<open>currentPage\<close> at \<open>1\<close>, with the filtered list recomputed from the new values; and
  \<open>paginate\<close> sets \<open>currentPage\<close> only: the filtered list, the catalog, the search
  term and the filters stay as they were.
\<close>

theorem page_reset_on_change:
  "(products (step parse st e) \<noteq> products st \<or> searchTerm (step parse st e) \<noteq> searchTerm st
      \<or> filters (step parse st e) \<noteq> filters st
    \<longrightarrow> currentPage (step parse st e) = 1
        \<and> filteredProducts (step parse st e)
            = applyFilters parse (searchTerm (step parse st e)) (filters (step parse st e))
                (products (step parse st e)))
   \<and> filteredProducts (step parse st (Paginate n)) = filteredProducts st
   \<and> products (step parse st (Paginate n)) = products st
   \<and> searchTerm (step parse st (Paginate n)) = searchTerm st
   \<and> filters (step parse st (Paginate n)) = filters st
   \<and> currentPage (step parse st (Paginate n)) = n"
proof -
  have "currentPage (step parse st e) = 1
        \<and> filteredProducts (step parse st e)
            = applyFilters parse (searchTerm (step parse st e)) (filters (step parse st e))
                (products (step parse st e))"
    if changed: "products (step parse st e) \<noteq> products st
      \<or> searchTerm (step parse st e) \<noteq> searchTerm st \<or> filters (step parse st e) \<noteq> filters st"
  proof (cases e)
    case (FetchProducts r)
    with changed show ?thesis
      by (cases "(parse, r, st)" rule: fetchProducts.cases)
         (auto simp: filterEffect_fields load_failed_def)
  next
    case (SetSearchTerm s)
    with changed show ?thesis
      by (auto simp: setSearchTerm_def filterEffect_fields split: if_splits)
  next
    case (SetFilters f)
    then show ?thesis by (simp add: setFilters_def filterEffect_fields)
  next
    case (Paginate k)
    with changed show ?thesis by (simp add: paginate_def)
  next
    case (SetShowCreateModal b)
    with changed show ?thesis by simp
  next
    case (SetNewProduct d)
    with changed show ?thesis by simp
  next
    case (SetViewingProduct v)
    with changed show ?thesis by simp
  next
    case (SetEditingProduct v)
    with changed show ?thesis by simp
  next
    case (HandleCreateProduct r)
    with changed show ?thesis
      by (cases r) (auto simp: filterEffect_fields split: if_splits body.splits)
  next
    case (HandleUpdateProduct i r)
    with changed show ?thesis
      by (cases r) (auto simp: filterEffect_fields split: if_splits body.splits)
  next
    case (HandleDeleteProduct i c r)
    with changed show ?thesis
      by (cases c; cases r) (auto simp: filterEffect_fields split: if_splits)
  qed
  then show ?thesis by (simp add: paginate_def)
qed

theorem page_reset_on_change_witness:
  "searchTerm (step example_parse session_before (SetSearchTerm ''Item''))
     \<noteq> searchTerm session_before
   \<and> currentPage session_before = 3
   \<and> currentPage (step example_parse session_before (SetSearchTerm ''Item'')) = 1
   \<and> filteredProducts (step example_parse session_before (Paginate 2)) = catalog21"
proof -
  have changed: "searchTerm (step example_parse session_before (SetSearchTerm ''Item''))
     \<noteq> searchTerm session_before"
    by (simp add: setSearchTerm_def session_before_fields filterEffect_fields)
  then have "currentPage (step example_parse session_before (SetSearchTerm ''Item'')) = 1"
    using page_reset_on_change [of example_parse session_before "SetSearchTerm ''Item''"]
    by blast
  moreover have "filteredProducts (step example_parse session_before (Paginate 2)) = catalog21"
    using page_reset_on_change [of example_parse session_before "SetSearchTerm ''Item''" 2]
    by (simp only: session_before_fields)
  ultimately show ?thesis using changed by (simp add: session_before_fields)
qed

text \<open>
  C9. When a creation fails by a network error or by a response outside \<open>200\<close> to
  \<open>299\<close>, the catalog and the filtered list are unchanged, the error is set, the draft
  keeps its fields and the modal stays as it was. The draft is reset and the modal
  closed only when the creation succeeds, and then they are.
\<close>

theorem create_failure_keeps_form:
  "(network_or_status_failure r \<longrightarrow>
      products (handleCreateProduct parse r st) = products st
      \<and> filteredProducts (handleCreateProduct parse r st) = filteredProducts st
      \<and> error (handleCreateProduct parse r st) \<noteq> None
      \<and> newProduct (handleCreateProduct parse r st) = newProduct st
      \<and> showCreateModal (handleCreateProduct parse r st) = showCreateModal st)
   \<and> (newProduct (handleCreateProduct parse r st) \<noteq> newProduct st
        \<or> showCreateModal (handleCreateProduct parse r st) \<noteq> showCreateModal st
      \<longrightarrow> created_successfully r)
   \<and> (created_successfully r \<longrightarrow>
        newProduct (handleCreateProduct parse r st) = blank_draft
        \<and> showCreateModal (handleCreateProduct parse r st) = False)"
  by (cases r)
     (auto simp: network_or_status_failure_def created_successfully_def filterEffect_fields
           split: body.splits)


theorem create_failure_keeps_form_witness:
  "network_or_status_failure (Rejects ''Failed to fetch'' :: product response)
   \<and> products (handleCreateProduct example_parse (Rejects ''Failed to fetch'') session_form)
      = catalog21
   \<and> error (handleCreateProduct example_parse (Rejects ''Failed to fetch'') session_form)
      \<noteq> None
   \<and> newProduct (handleCreateProduct example_parse (Rejects ''Failed to fetch'') session_form)
      = blank_draft\<lparr>draft_name := ''Bolt''\<rparr>
   \<and> showCreateModal
        (handleCreateProduct example_parse (Rejects ''Failed to fetch'') session_form)
   \<and> network_or_status_failure (Response 500 (BodyData (example_product 22 7 Nullish)))
   \<and> showCreateModal
        (handleCreateProduct example_parse
           (Response 500 (BodyData (example_product 22 7 Nullish))) session_form)
   \<and> created_successfully (Response 201 (BodyData (example_product 22 7 Nullish)))
   \<and> newProduct
        (handleCreateProduct example_parse
           (Response 201 (BodyData (example_product 22 7 Nullish))) session_form)
      = blank_draft"
proof -
  have net: "network_or_status_failure (Rejects ''Failed to fetch'' :: product response)"
    by (simp add: network_or_status_failure_def)
  have status:
    "network_or_status_failure (Response 500 (BodyData (example_product 22 7 Nullish)))"
    by (simp add: network_or_status_failure_def ok_def)
  have success: "created_successfully (Response 201 (BodyData (example_product 22 7 Nullish)))"
    by (simp add: created_successfully_def ok_def)
  have "products (handleCreateProduct example_parse (Rejects ''Failed to fetch'') session_form)
          = products session_form
        \<and> error (handleCreateProduct example_parse (Rejects ''Failed to fetch'') session_form)
          \<noteq> None
        \<and> newProduct (handleCreateProduct example_parse (Rejects ''Failed to fetch'') session_form)
          = newProduct session_form
        \<and> showCreateModal
            (handleCreateProduct example_parse (Rejects ''Failed to fetch'') session_form)
          = showCreateModal session_form"
    using net
      create_failure_keeps_form [of "Rejects ''Failed to fetch''" example_parse session_form]
    by blast
  moreover have "showCreateModal
        (handleCreateProduct example_parse
           (Response 500 (BodyData (example_product 22 7 Nullish))) session_form)
      = showCreateModal session_form"
    using status
      create_failure_keeps_form
        [of "Response 500 (BodyData (example_product 22 7 Nullish))" example_parse session_form]
    by blast
  moreover have "newProduct
        (handleCreateProduct example_parse
           (Response 201 (BodyData (example_product 22 7 Nullish))) session_form)
      = blank_draft"
    using success
      create_failure_keeps_form
        [of "Response 201 (BodyData (example_product 22 7 Nullish))" example_parse session_form]
    by blast
  ultimately show ?thesis
    using net status success by (simp add: session_form_fields)
qed

lemma session_after_products:
  "products session_after = filter (\<lambda>p. product_id p \<noteq> 21) catalog21"
  "filteredProducts session_after = filter (\<lambda>p. product_id p \<noteq> 21) catalog21"
  "currentPage session_after = 1"
  "productsPerPage session_after = 10"
  by (simp_all add: session_after_def ok_def filterEffect_def session_before_fields
      applyFilters_def applySearch_def applyStockFilter_def applyCategoryFilter_def
      applySupplierFilter_def session_before_def run_def paginate_def initial_state_def)

lemma upt_1_22: "[Suc 0..<22] = [1, 2, 3, 4, 5, 6, 7, 8, 9, 10, 11, 12, 13, 14, 15, 16, 17, 18, 19, 20, 21 :: nat]"
  by code_simp

lemma upt_1_21: "[Suc 0..<21] = [1, 2, 3, 4, 5, 6, 7, 8, 9, 10, 11, 12, 13, 14, 15, 16, 17, 18, 19, 20 :: nat]"
  by code_simp

lemma catalog21_without_21:
  "filter (\<lambda>p. product_id p \<noteq> 21) catalog21 = map (\<lambda>i. example_product i 7 Nullish) [1..<21]"
  by (simp add: catalog21_def example_product_def upt_1_22 upt_1_21)

text \<open>
  C10, as stated, fails on the page: after a delete the effect sets \<open>currentPage\<close> to
  \<open>1\<close>. With \<open>21\<close> products in pages of \<open>10\<close>, page \<open>3\<close> shows product \<open>21\<close> alone;
  once it is deleted, \<open>2\<close> pages remain and the current page is \<open>1\<close>, not \<open>2\<close>.
\<close>

theorem delete_page_counterexample:
  "currentPage session_before = 3
   \<and> totalPages (filteredProducts session_before) (productsPerPage session_before) = Some 3
   \<and> currentProducts (filteredProducts session_before) (productsPerPage session_before)
        (currentPage session_before) = [example_product 21 7 Nullish]
   \<and> currentProducts (filteredProducts session_after) (productsPerPage session_after) 3 = []
   \<and> totalPages (filteredProducts session_after) (productsPerPage session_after) = Some 2
   \<and> currentPage session_after = 1
   \<and> Some (currentPage session_after)
       \<noteq> totalPages (filteredProducts session_after) (productsPerPage session_after)"
  by (simp add: session_before_fields session_after_products catalog21_without_21
      totalPages_def currentProducts_def js_slice_def indexOfFirstProduct_def
      indexOfLastProduct_def)
     (simp add: catalog21_def upt_1_22)

text \<open>
  C10, amended. After a delete that the store confirms, the catalog holds no entry with
  that identifier, and the recomputation that follows sets the current page to \<open>1\<close>,
  whatever page the entry was shown on.
\<close>

theorem delete_success_resets_page:
  assumes "ok status"
  shows "productId \<notin> product_id ` set (products (handleDeleteProduct parse productId True (Response status b) st))
     \<and> products (handleDeleteProduct parse productId True (Response status b) st)
         = filter (\<lambda>p. product_id p \<noteq> productId) (products st)
     \<and> currentPage (handleDeleteProduct parse productId True (Response status b) st) = 1"
  using assms by (auto simp: filterEffect_fields)


theorem delete_success_resets_page_witness:
  "ok 200
   \<and> 21 \<notin> product_id ` set (products session_after)
   \<and> currentPage session_after = 1"
  using delete_success_resets_page [of 200 21 example_parse "BodyData ()" session_before]
  by (auto simp: ok_def session_after_def)
end
